theory Spec2Isabelle
  imports Main
begin

section \<open>The phone clipboard hook: data model\<close>

text \<open>
  The development embeds \<^verbatim>\<open>usePhoneClipboard\<close>
  (\<^verbatim>\<open>src/packages/roster/src/hooks/usePhoneClipboard.ts\<close>).
  A JavaScript string is modelled as \<^typ>\<open>string\<close>, one list element per code unit,
  so that \<^verbatim>\<open>.length\<close> is \<^const>\<open>length\<close> and \<^verbatim>\<open>substring(0, n)\<close>
  is \<^const>\<open>take\<close> with a negative \<open>n\<close> clamped to zero.
\<close>

text \<open>
  Modelled from the spec: the enumeration \<^verbatim>\<open>ClipboardErrorType\<close> of
  \<^verbatim>\<open>useClipboardError\<close> is not among the sources. The hook names the members
  \<^verbatim>\<open>PERMISSION_DENIED\<close> and \<^verbatim>\<open>NOT_SUPPORTED\<close>; the other two kinds are
  the spec's \<open>Transient\<close> and \<open>Unknown\<close>.
\<close>

datatype ClipboardErrorType = PERMISSION_DENIED | NOT_SUPPORTED | TRANSIENT | UNKNOWN

record ClipboardError =
  errorType :: ClipboardErrorType
  errorMessage :: string
  suggestedAction :: string

text \<open>
  What \<^verbatim>\<open>useClipboard()\<close> hands to one render: the fields the hook reads. The
  asynchronous \<^verbatim>\<open>copyToClipboard\<close> is not a field; its outcome is an input of the
  operations below.
\<close>

record Clipboard =
  isSupported :: bool
  isLoading :: bool
  error :: "string option"
  detailedError :: "ClipboardError option"

text \<open>A value thrown by JavaScript code: an \<^verbatim>\<open>Error\<close> with its message, or anything else.\<close>

datatype thrown = ErrorObject string | OtherValue

text \<open>
  How one call \<^verbatim>\<open>await clipboard.copyToClipboard(text)\<close> ends: the promise resolves
  to a boolean, or the call throws (synchronously or by rejecting).
\<close>

datatype write_outcome = Resolved bool | Threw thrown

record Musician =
  musician_id :: string
  phone :: "string option"

text \<open>
  The options after destructuring. An absent option is \<open>None\<close>; the defaults of the
  destructuring pattern are applied by the accessor functions below. The remaining
  \<^verbatim>\<open>formatOptions\<close> only ever reach the external formatter, which is therefore taken
  already applied to them.
\<close>

record UsePhoneClipboardOptions =
  autoClearSelection :: "bool option"
  successMessage :: "(nat \<Rightarrow> string) option"
  autoUpdateClipboard :: "bool option"
  autoUpdateMinSelection :: "int option"
  autoUpdateDebounce :: "nat option"

text \<open>
  One render of the hook: its arguments, the clipboard object of that render and the two
  external formatter functions (\<^verbatim>\<open>formatPhoneNumbersFromObjects\<close> applied to the
  format options, and the \<^verbatim>\<open>valid\<close> count of \<^verbatim>\<open>getPhoneFormatStats\<close>).
\<close>

record render =
  musicians :: "Musician list"
  selectedIds :: "string set"
  clearSelection :: bool
  options :: UsePhoneClipboardOptions
  clipboard :: Clipboard
  formatPhoneNumbersFromObjects :: "Musician list \<Rightarrow> string"
  getPhoneFormatStats_valid :: "string option list \<Rightarrow> nat"

definition opt_autoClearSelection :: "render \<Rightarrow> bool" where
  "opt_autoClearSelection r = (case autoClearSelection (options r) of None \<Rightarrow> False | Some b \<Rightarrow> b)"

definition opt_autoUpdateClipboard :: "render \<Rightarrow> bool" where
  "opt_autoUpdateClipboard r = (case autoUpdateClipboard (options r) of None \<Rightarrow> False | Some b \<Rightarrow> b)"

definition opt_autoUpdateMinSelection :: "render \<Rightarrow> int" where
  "opt_autoUpdateMinSelection r = (case autoUpdateMinSelection (options r) of None \<Rightarrow> 1 | Some n \<Rightarrow> n)"

definition opt_autoUpdateDebounce :: "render \<Rightarrow> nat" where
  "opt_autoUpdateDebounce r = (case autoUpdateDebounce (options r) of None \<Rightarrow> 300 | Some n \<Rightarrow> n)"

subsection \<open>Derived values of a render\<close>

definition selectedMusicians :: "render \<Rightarrow> Musician list" where
  "selectedMusicians r = filter (\<lambda>m. musician_id m \<in> selectedIds r) (musicians r)"

definition formattedPhoneNumbers :: "render \<Rightarrow> string" where
  "formattedPhoneNumbers r = formatPhoneNumbersFromObjects r (selectedMusicians r)"

definition validPhones :: "render \<Rightarrow> nat" where
  "validPhones r = getPhoneFormatStats_valid r (map phone (selectedMusicians r))"

subsection \<open>Preview\<close>

text \<open>
  \<^verbatim>\<open>getPreview(maxLength)\<close>. The empty string is falsy; \<^verbatim>\<open>substring(0, n)\<close>
  treats a negative \<open>n\<close> as zero, which \<^const>\<open>nat\<close> does here.
\<close>

definition getPreview :: "render \<Rightarrow> int \<Rightarrow> string" where
  "getPreview r maxLength =
     (if formattedPhoneNumbers r = [] then []
      else if int (length (formattedPhoneNumbers r)) \<le> maxLength then formattedPhoneNumbers r
      else take (nat (maxLength - 3)) (formattedPhoneNumbers r) @ ''...'')"

section \<open>Effects: notifications, timers and the refs\<close>

text \<open>
  The calls the hook makes on \<^verbatim>\<open>useClipboardToast()\<close>, in the order made. The
  auto-update's \<^verbatim>\<open>showToast\<close> carries the arguments given to
  \<^verbatim>\<open>ClipboardToastVariants.copySuccess\<close> and the overriding duration and animation.
\<close>

datatype toast_call =
    ShowToast_copySuccess nat string nat string
  | ShowPermissionDenied
  | ShowNotSupported
  | ShowCopyError string string
  | ShowCopyLoading
  | ShowCopySuccess nat string

datatype origin = Auto | Manual

text \<open>
  A pending \<^verbatim>\<open>setTimeout\<close>: its handle, the time at which it is due, and the render
  whose values its callback closes over.
\<close>

record timer =
  handle :: nat
  deadline :: nat
  callback :: render

text \<open>
  The state of one hook instance and of the host around it: the two refs, whether the
  last run of the effect returned its cleanup function, the host's pending timers and
  clock, the auto-update callbacks suspended at their \<^verbatim>\<open>await\<close>, and the logs of
  what the hook did to its collaborators. Calls on the toast object, \<^verbatim>\<open>console.warn\<close>
  and \<^verbatim>\<open>clearSelection\<close> are taken to return normally; only the clipboard write
  may throw.
\<close>

record hook_state =
  debounceTimeoutRef :: "nat option"
  lastUpdatedRef :: string
  effectCleanup :: bool
  mounted :: bool
  timers :: "timer list"
  nextHandle :: nat
  clock :: nat
  inFlight :: "render list"
  clipboardWrites :: "(origin \<times> string) list"
  toasts :: "toast_call list"
  warnings :: "thrown list"
  selectionClears :: nat

definition mount_state :: hook_state where
  "mount_state =
     \<lparr>debounceTimeoutRef = None, lastUpdatedRef = [], effectCleanup = False, mounted = True,
      timers = [], nextHandle = 1, clock = 0, inFlight = [], clipboardWrites = [],
      toasts = [], warnings = [], selectionClears = 0\<rparr>"

definition showToast :: "toast_call \<Rightarrow> hook_state \<Rightarrow> hook_state" where
  "showToast t s = s\<lparr>toasts := toasts s @ [t]\<rparr>"

definition clearTimeout :: "nat \<Rightarrow> hook_state \<Rightarrow> hook_state" where
  "clearTimeout h s = s\<lparr>timers := filter (\<lambda>t. handle t \<noteq> h) (timers s)\<rparr>"

definition setTimeout :: "render \<Rightarrow> nat \<Rightarrow> hook_state \<Rightarrow> nat \<times> hook_state" where
  "setTimeout r delay s =
     (nextHandle s,
      s\<lparr>timers := timers s @ [\<lparr>handle = nextHandle s, deadline = clock s + delay, callback = r\<rparr>],
        nextHandle := Suc (nextHandle s)\<rparr>)"

text \<open>\<^verbatim>\<open>if (debounceTimeoutRef.current) clearTimeout(debounceTimeoutRef.current)\<close>\<close>

definition clear_debounce :: "hook_state \<Rightarrow> hook_state" where
  "clear_debounce s = (case debounceTimeoutRef s of None \<Rightarrow> s | Some h \<Rightarrow> clearTimeout h s)"

section \<open>The auto-update effect\<close>

text \<open>
  The body of the \<^verbatim>\<open>useEffect\<close>. The four early returns return no cleanup function;
  the run that arms the timer returns one.
\<close>

definition effect_body :: "render \<Rightarrow> hook_state \<Rightarrow> hook_state" where
  "effect_body r s =
     (if \<not> opt_autoUpdateClipboard r \<or> \<not> isSupported (clipboard r)
      then s\<lparr>effectCleanup := False\<rparr>
      else
        let s1 = clear_debounce s in
        if int (length (selectedMusicians r)) < opt_autoUpdateMinSelection r
        then s1\<lparr>effectCleanup := False\<rparr>
        else if formattedPhoneNumbers r = [] \<or> validPhones r = 0
        then s1\<lparr>effectCleanup := False\<rparr>
        else if lastUpdatedRef s1 = formattedPhoneNumbers r
        then s1\<lparr>effectCleanup := False\<rparr>
        else
          (case setTimeout r (opt_autoUpdateDebounce r) s1 of
             (h, s2) \<Rightarrow> s2\<lparr>debounceTimeoutRef := Some h, effectCleanup := True\<rparr>))"

text \<open>The cleanup function returned by the effect, run when there is one.\<close>

definition run_cleanup :: "hook_state \<Rightarrow> hook_state" where
  "run_cleanup s = (if effectCleanup s then (clear_debounce s)\<lparr>effectCleanup := False\<rparr> else s)"

text \<open>
  A render whose dependencies changed: the cleanup of the previous run, then the body.
\<close>

definition useEffect_run :: "render \<Rightarrow> hook_state \<Rightarrow> hook_state" where
  "useEffect_run r s = effect_body r (run_cleanup s)"

text \<open>
  A due timer leaves the host's table and its callback starts: it calls
  \<^verbatim>\<open>clipboard.copyToClipboard(formattedPhoneNumbers)\<close> and is suspended at the
  \<^verbatim>\<open>await\<close>.
\<close>

definition fire_timer :: "timer \<Rightarrow> hook_state \<Rightarrow> hook_state" where
  "fire_timer t s =
     s\<lparr>timers := filter (\<lambda>u. handle u \<noteq> handle t) (timers s),
       clipboardWrites := clipboardWrites s @ [(Auto, formattedPhoneNumbers (callback t))],
       inFlight := inFlight s @ [callback t]\<rparr>"

definition elapse :: "nat \<Rightarrow> hook_state \<Rightarrow> hook_state" where
  "elapse d s =
     (fold fire_timer (sort_key deadline (filter (\<lambda>t. deadline t \<le> clock s + d) (timers s))) s)
       \<lparr>clock := clock s + d\<rparr>"

text \<open>
  The rest of the debounce callback, once the write has settled: the \<^verbatim>\<open>if (success)\<close>
  with no \<^verbatim>\<open>else\<close>, and the \<^verbatim>\<open>catch\<close>.
\<close>

definition auto_settled :: "render \<Rightarrow> write_outcome \<Rightarrow> hook_state \<Rightarrow> hook_state" where
  "auto_settled r outcome s =
     (case outcome of
        Resolved success \<Rightarrow>
          (if success
           then showToast
                  (ShowToast_copySuccess (validPhones r) (formattedPhoneNumbers r) 2000 ''fade'')
                  (s\<lparr>lastUpdatedRef := formattedPhoneNumbers r\<rparr>)
           else s)
      | Threw e \<Rightarrow>
          (let s1 = s\<lparr>warnings := warnings s @ [e]\<rparr> in
           case detailedError (clipboard r) of
             None \<Rightarrow> s1
           | Some clipboardError \<Rightarrow>
               if errorType clipboardError = PERMISSION_DENIED
                  \<or> errorType clipboardError = NOT_SUPPORTED
               then (if errorType clipboardError = PERMISSION_DENIED
                     then showToast ShowPermissionDenied s1
                     else showToast ShowNotSupported s1)
               else s1))"

section \<open>The manual copy\<close>

record copy_result =
  success :: bool
  message :: string
  phoneCount :: nat

text \<open>Decimal digits of a count, for the template literal of the default success message.\<close>

function show_nat :: "nat \<Rightarrow> string" where
  "show_nat n = (if n < 10 then [''0123456789'' ! n] else show_nat (n div 10) @ [''0123456789'' ! (n mod 10)])"
  by pat_completeness auto
termination
  by (relation "measure (\<lambda>n. n)") auto

declare show_nat.simps [simp del]

definition default_successMessage :: "nat \<Rightarrow> string" where
  "default_successMessage count' =
     ''Copied '' @ show_nat count' @ '' phone number'' @ (if count' \<noteq> 1 then ''s'' else [])
       @ '' to clipboard''"

definition opt_successMessage :: "render \<Rightarrow> nat \<Rightarrow> string" where
  "opt_successMessage r = (case successMessage (options r) of None \<Rightarrow> default_successMessage | Some f \<Rightarrow> f)"

text \<open>
  The \<^verbatim>\<open>try\<close> block of \<^verbatim>\<open>copyPhoneNumbers\<close>, from the settled write on:
  \<open>Inl\<close> is a throw out of the block, \<open>Inr\<close> its \<^verbatim>\<open>return\<close>.
  \<^verbatim>\<open>clipboard.error || 'Failed to copy to clipboard'\<close> takes the fallback for
  \<^verbatim>\<open>null\<close> and for the empty string.
\<close>

definition copy_try :: "render \<Rightarrow> write_outcome \<Rightarrow> hook_state \<Rightarrow> thrown + (copy_result \<times> hook_state)" where
  "copy_try r outcome s =
     (case outcome of
        Threw e \<Rightarrow> Inl e
      | Resolved ok \<Rightarrow>
          if ok then
            (let n = validPhones r;
                 s1 = showToast (ShowCopySuccess n (formattedPhoneNumbers r)) s;
                 s2 = (if opt_autoClearSelection r \<and> clearSelection r
                       then s1\<lparr>selectionClears := Suc (selectionClears s1)\<rparr> else s1)
             in Inr (\<lparr>success = True, message = opt_successMessage r n, phoneCount = n\<rparr>, s2))
          else
            (let s1 = (case detailedError (clipboard r) of
                         Some e \<Rightarrow>
                           (case errorType e of
                              PERMISSION_DENIED \<Rightarrow> showToast ShowPermissionDenied s
                            | NOT_SUPPORTED \<Rightarrow> showToast ShowNotSupported s
                            | _ \<Rightarrow> showToast (ShowCopyError (errorMessage e) (suggestedAction e)) s)
                       | None \<Rightarrow> showToast (ShowCopyError ''Copy operation failed'' ''Please try again'') s)
             in Inr (\<lparr>success = False,
                      message = (case error (clipboard r) of
                                   None \<Rightarrow> ''Failed to copy to clipboard''
                                 | Some m \<Rightarrow> if m = [] then ''Failed to copy to clipboard'' else m),
                      phoneCount = 0\<rparr>, s1)))"

text \<open>
  \<^verbatim>\<open>copyPhoneNumbers\<close>, run to the settlement of its promise with the write's outcome
  given: \<open>Inl\<close> would be a rejected promise, \<open>Inr\<close> is the resolved result.
\<close>

definition copyPhoneNumbers ::
  "render \<Rightarrow> write_outcome \<Rightarrow> hook_state \<Rightarrow> (thrown + copy_result) \<times> hook_state" where
  "copyPhoneNumbers r outcome s =
     (if length (selectedMusicians r) = 0 then
        (Inr \<lparr>success = False, message = ''No musicians selected'', phoneCount = 0\<rparr>,
         showToast (ShowCopyError ''No musicians selected'' ''Please select some musicians first'') s)
      else if formattedPhoneNumbers r = [] then
        (Inr \<lparr>success = False, message = ''No valid phone numbers found in selection'', phoneCount = 0\<rparr>,
         showToast (ShowCopyError ''No valid phone numbers found''
                      ''Selected musicians don't have valid phone numbers'') s)
      else
        let s1 = showToast ShowCopyLoading s;
            s2 = s1\<lparr>clipboardWrites := clipboardWrites s1 @ [(Manual, formattedPhoneNumbers r)]\<rparr>
        in case copy_try r outcome s2 of
             Inr (res, s3) \<Rightarrow> (Inr res, s3)
           | Inl e \<Rightarrow>
               (let errorMessage' = (case e of ErrorObject m \<Rightarrow> m | OtherValue \<Rightarrow> ''Unknown error occurred'')
                in (Inr \<lparr>success = False, message = errorMessage', phoneCount = 0\<rparr>,
                    showToast (ShowCopyError errorMessage' ''Please try again or copy manually'') s2)))"

section \<open>The hook as a transition system\<close>

text \<open>
  What can happen to a hook instance: a render whose effect runs, time passing, a suspended
  auto-update write settling (the \<open>i\<close>-th in flight), a call of \<^verbatim>\<open>copyPhoneNumbers\<close>
  from some render's closure, and the unmount.
\<close>

datatype event =
    Render render
  | Elapse nat
  | AutoWriteSettled nat write_outcome
  | CopyPhoneNumbers render write_outcome
  | Unmount

definition drop_nth :: "nat \<Rightarrow> 'a list \<Rightarrow> 'a list" where
  "drop_nth i xs = take i xs @ drop (Suc i) xs"

definition step :: "event \<Rightarrow> hook_state \<Rightarrow> hook_state" where
  "step e s =
     (case e of
        Render r \<Rightarrow> if mounted s then useEffect_run r s else s
      | Elapse d \<Rightarrow> elapse d s
      | AutoWriteSettled i outcome \<Rightarrow>
          if i < length (inFlight s)
          then auto_settled (inFlight s ! i) outcome (s\<lparr>inFlight := drop_nth i (inFlight s)\<rparr>)
          else s
      | CopyPhoneNumbers r outcome \<Rightarrow> snd (copyPhoneNumbers r outcome s)
      | Unmount \<Rightarrow> (run_cleanup s)\<lparr>mounted := False\<rparr>)"

fun run :: "event list \<Rightarrow> hook_state \<Rightarrow> hook_state" where
  "run [] s = s"
| "run (e # es) s = run es (step e s)"

section \<open>Predicates used in the statements\<close>

text \<open>
  The effect arms a timer exactly when none of its four early returns is taken.
\<close>

definition arms :: "render \<Rightarrow> hook_state \<Rightarrow> bool" where
  "arms r s =
     (opt_autoUpdateClipboard r \<and> isSupported (clipboard r)
      \<and> opt_autoUpdateMinSelection r \<le> int (length (selectedMusicians r))
      \<and> formattedPhoneNumbers r \<noteq> [] \<and> validPhones r \<noteq> 0
      \<and> lastUpdatedRef s \<noteq> formattedPhoneNumbers r)"

text \<open>
  The invariant of the timer table: at most one timer is pending, it is the one the ref
  holds and the last effect run returned its cleanup; every payload a pending or suspended
  callback closes over is non-empty.
\<close>

definition one_timer :: "hook_state \<Rightarrow> bool" where
  "one_timer s =
     ((case timers s of
         [] \<Rightarrow> True
       | t # ts \<Rightarrow> ts = [] \<and> effectCleanup s \<and> debounceTimeoutRef s = Some (handle t))
      \<and> list_all (\<lambda>t. formattedPhoneNumbers (callback t) \<noteq> []) (timers s)
      \<and> list_all (\<lambda>r. formattedPhoneNumbers r \<noteq> []) (inFlight s))"

text \<open>An event that is not a render with a supported clipboard.\<close>

definition unsupported :: "event \<Rightarrow> bool" where
  "unsupported e = (case e of Render r \<Rightarrow> \<not> isSupported (clipboard r) | _ \<Rightarrow> True)"

text \<open>The texts of the writes the debounce callback made.\<close>

definition auto_writes :: "hook_state \<Rightarrow> string list" where
  "auto_writes s = map snd (filter (\<lambda>w. fst w = Auto) (clipboardWrites s))"

section \<open>Sample inputs\<close>

text \<open>
  A roster of three musicians, one without a phone, and stand-ins for the external
  formatter (the phones present, comma-separated) and its count of valid phones. They
  serve the concrete instances below; no general statement depends on them.
\<close>

definition roster :: "Musician list" where
  "roster = [\<lparr>musician_id = ''a'', phone = Some ''555-0100''\<rparr>,
             \<lparr>musician_id = ''b'', phone = Some ''555-0101''\<rparr>,
             \<lparr>musician_id = ''c'', phone = None\<rparr>]"

fun join_phones :: "Musician list \<Rightarrow> string" where
  "join_phones [] = []"
| "join_phones (m # ms) =
     (case phone m of
        None \<Rightarrow> join_phones ms
      | Some p \<Rightarrow> (if join_phones ms = [] then p else p @ '','' @ join_phones ms))"

definition count_valid :: "string option list \<Rightarrow> nat" where
  "count_valid ps = length (filter (\<lambda>p. p \<noteq> None) ps)"

definition example_render :: "string set \<Rightarrow> bool \<Rightarrow> ClipboardError option \<Rightarrow> render" where
  "example_render ids supported err =
     \<lparr>musicians = roster, selectedIds = ids, clearSelection = False,
      options = \<lparr>autoClearSelection = None, successMessage = None,
                 autoUpdateClipboard = Some True, autoUpdateMinSelection = None,
                 autoUpdateDebounce = None\<rparr>,
      clipboard = \<lparr>isSupported = supported, isLoading = False, error = None,
                   detailedError = err\<rparr>,
      formatPhoneNumbersFromObjects = join_phones,
      getPhoneFormatStats_valid = count_valid\<rparr>"

definition long_render :: render where
  "long_render = (example_render {''a''} True None)
                   \<lparr>formatPhoneNumbersFromObjects := (\<lambda>ms. replicate 150 (CHR ''5''))\<rparr>"

definition permission_denied :: ClipboardError where
  "permission_denied = \<lparr>errorType = PERMISSION_DENIED, errorMessage = ''Permission denied'',
     suggestedAction = ''Allow clipboard access''\<rparr>"

section \<open>Basic facts\<close>

lemma one_timer_mount: "one_timer mount_state"
  by (simp add: one_timer_def mount_state_def)

lemma timers_run_cleanup: "one_timer s \<Longrightarrow> timers (run_cleanup s) = []"
  by (auto simp: one_timer_def run_cleanup_def clear_debounce_def clearTimeout_def
      split: option.splits list.splits)

lemma run_cleanup_fields:
  "lastUpdatedRef (run_cleanup s) = lastUpdatedRef s"
  "inFlight (run_cleanup s) = inFlight s"
  "clipboardWrites (run_cleanup s) = clipboardWrites s"
  "nextHandle (run_cleanup s) = nextHandle s"
  "clock (run_cleanup s) = clock s"
  "toasts (run_cleanup s) = toasts s"
  "mounted (run_cleanup s) = mounted s"
  "set (timers (run_cleanup s)) \<subseteq> set (timers s)"
  by (auto simp: run_cleanup_def clear_debounce_def clearTimeout_def split: option.splits)
lemma clear_debounce_fields:
  "lastUpdatedRef (clear_debounce s) = lastUpdatedRef s"
  "inFlight (clear_debounce s) = inFlight s"
  "clipboardWrites (clear_debounce s) = clipboardWrites s"
  "nextHandle (clear_debounce s) = nextHandle s"
  "clock (clear_debounce s) = clock s"
  "toasts (clear_debounce s) = toasts s"
  "mounted (clear_debounce s) = mounted s"
  "set (timers (clear_debounce s)) \<subseteq> set (timers s)"
  by (auto simp: clear_debounce_def clearTimeout_def split: option.splits)

lemma effect_body_arms:
  "arms r s \<Longrightarrow> timers s = [] \<Longrightarrow>
   effect_body r s =
     s\<lparr>timers := [\<lparr>handle = nextHandle s, deadline = clock s + opt_autoUpdateDebounce r, callback = r\<rparr>],
       nextHandle := Suc (nextHandle s),
       debounceTimeoutRef := Some (nextHandle s), effectCleanup := True\<rparr>"
  by (auto simp: arms_def effect_body_def Let_def setTimeout_def clear_debounce_def clearTimeout_def
      split: option.splits)

lemma effect_body_skips:
  "\<not> arms r s \<Longrightarrow> timers s = [] \<Longrightarrow> effect_body r s = s\<lparr>effectCleanup := False\<rparr>"
  by (auto simp: arms_def effect_body_def Let_def setTimeout_def clear_debounce_def clearTimeout_def
      split: option.splits)

lemma one_timer_useEffect_run: "one_timer s \<Longrightarrow> one_timer (useEffect_run r s)"
proof -
  assume inv: "one_timer s"
  let ?c = "run_cleanup s"
  have t: "timers ?c = []" using inv by (rule timers_run_cleanup)
  have f: "list_all (\<lambda>r. formattedPhoneNumbers r \<noteq> []) (inFlight ?c)"
    using inv by (simp add: one_timer_def run_cleanup_fields)
  show ?thesis
  proof (cases "arms r ?c")
    case True
    then show ?thesis using t f
      by (simp add: useEffect_run_def effect_body_arms one_timer_def arms_def)
  next
    case False
    then show ?thesis using t f
      by (simp add: useEffect_run_def effect_body_skips one_timer_def)
  qed
qed

lemma elapse_no_timer: "timers s = [] \<Longrightarrow> elapse d s = s\<lparr>clock := clock s + d\<rparr>"
  by (simp add: elapse_def)

lemma elapse_single:
  "timers s = [t] \<Longrightarrow>
   elapse d s =
     (if deadline t \<le> clock s + d
      then s\<lparr>timers := [],
             clipboardWrites := clipboardWrites s @ [(Auto, formattedPhoneNumbers (callback t))],
             inFlight := inFlight s @ [callback t], clock := clock s + d\<rparr>
      else s\<lparr>clock := clock s + d\<rparr>)"
  by (simp add: elapse_def fire_timer_def)

lemma one_timer_cases:
  "one_timer s \<Longrightarrow> timers s = [] \<or> (\<exists>t. timers s = [t])"
  by (auto simp: one_timer_def split: list.splits)

lemma one_timer_elapse: "one_timer s \<Longrightarrow> one_timer (elapse d s)"
proof -
  assume inv: "one_timer s"
  from one_timer_cases [OF inv] show ?thesis
  proof
    assume "timers s = []"
    then show ?thesis using inv by (simp add: elapse_no_timer one_timer_def)
  next
    assume "\<exists>t. timers s = [t]"
    then obtain t where t: "timers s = [t]" ..
    show ?thesis using inv t by (auto simp: elapse_single [OF t] one_timer_def)
  qed
qed

lemma auto_settled_fields:
  "timers (auto_settled r out s) = timers s"
  "debounceTimeoutRef (auto_settled r out s) = debounceTimeoutRef s"
  "effectCleanup (auto_settled r out s) = effectCleanup s"
  "inFlight (auto_settled r out s) = inFlight s"
  "clipboardWrites (auto_settled r out s) = clipboardWrites s"
  "nextHandle (auto_settled r out s) = nextHandle s"
  by (auto simp: auto_settled_def showToast_def Let_def split: write_outcome.splits option.splits)

lemma copyPhoneNumbers_fields:
  "timers (snd (copyPhoneNumbers r out s)) = timers s"
  "debounceTimeoutRef (snd (copyPhoneNumbers r out s)) = debounceTimeoutRef s"
  "effectCleanup (snd (copyPhoneNumbers r out s)) = effectCleanup s"
  "inFlight (snd (copyPhoneNumbers r out s)) = inFlight s"
  "lastUpdatedRef (snd (copyPhoneNumbers r out s)) = lastUpdatedRef s"
  "nextHandle (snd (copyPhoneNumbers r out s)) = nextHandle s"
  by (auto simp: copyPhoneNumbers_def copy_try_def showToast_def Let_def
      split: write_outcome.splits option.splits ClipboardErrorType.splits thrown.splits)

lemma list_all_drop_nth: "list_all P xs \<Longrightarrow> list_all P (drop_nth i xs)"
  by (auto simp: drop_nth_def list_all_iff dest: in_set_takeD in_set_dropD)

lemma one_timer_step: "one_timer s \<Longrightarrow> one_timer (step e s)"
proof (cases e)
  case (Render r)
  assume "one_timer s"
  then show ?thesis using Render by (simp add: step_def one_timer_useEffect_run)
next
  case (Elapse d)
  assume "one_timer s"
  then show ?thesis using Elapse by (simp add: step_def one_timer_elapse)
next
  case (AutoWriteSettled i out)
  assume "one_timer s"
  then show ?thesis using AutoWriteSettled
    by (auto simp: step_def one_timer_def auto_settled_fields list_all_drop_nth split: list.splits)
next
  case (CopyPhoneNumbers r out)
  assume "one_timer s"
  then show ?thesis using CopyPhoneNumbers
    by (auto simp: step_def one_timer_def copyPhoneNumbers_fields split: list.splits)
next
  case Unmount
  assume inv: "one_timer s"
  then show ?thesis using Unmount timers_run_cleanup [OF inv]
    by (auto simp: step_def one_timer_def run_cleanup_fields split: list.splits)
qed

lemma one_timer_run: "one_timer s \<Longrightarrow> one_timer (run es s)"
  by (induction es arbitrary: s) (simp_all add: one_timer_step)

lemma useEffect_run_arms:
  assumes "one_timer s" "arms r s"
  shows "useEffect_run r s =
     (run_cleanup s)\<lparr>timers := [\<lparr>handle = nextHandle s, deadline = clock s + opt_autoUpdateDebounce r, callback = r\<rparr>],
       nextHandle := Suc (nextHandle s),
       debounceTimeoutRef := Some (nextHandle s), effectCleanup := True\<rparr>"
proof -
  have "arms r (run_cleanup s)" using assms(2) by (simp add: arms_def run_cleanup_fields)
  then show ?thesis
    using timers_run_cleanup [OF assms(1)]
    by (simp add: useEffect_run_def effect_body_arms run_cleanup_fields)
qed

lemma timers_le_one: "one_timer s \<Longrightarrow> length (timers s) \<le> 1"
  by (auto simp: one_timer_def split: list.splits)
lemma step_lastUpdatedRef:
  "lastUpdatedRef (step e s) \<noteq> lastUpdatedRef s \<Longrightarrow>
   \<exists>i. e = AutoWriteSettled i (Resolved True) \<and> i < length (inFlight s)
       \<and> lastUpdatedRef (step e s) = formattedPhoneNumbers (inFlight s ! i)"
proof (cases e)
  case (Render r)
  assume "lastUpdatedRef (step e s) \<noteq> lastUpdatedRef s"
  then show ?thesis using Render
    by (auto simp: step_def useEffect_run_def effect_body_def Let_def setTimeout_def
        run_cleanup_fields clear_debounce_fields split: if_splits)
next
  case (Elapse d)
  have "lastUpdatedRef (fold fire_timer ts s) = lastUpdatedRef s" for ts
    by (induction ts arbitrary: s) (simp_all add: fire_timer_def)
  moreover assume "lastUpdatedRef (step e s) \<noteq> lastUpdatedRef s"
  ultimately show ?thesis using Elapse by (simp add: step_def elapse_def)
next
  case (AutoWriteSettled i out)
  assume "lastUpdatedRef (step e s) \<noteq> lastUpdatedRef s"
  then show ?thesis using AutoWriteSettled
    by (auto simp: step_def auto_settled_def showToast_def Let_def
        split: if_splits write_outcome.splits option.splits)
next
  case (CopyPhoneNumbers r out)
  assume "lastUpdatedRef (step e s) \<noteq> lastUpdatedRef s"
  then show ?thesis using CopyPhoneNumbers by (simp add: step_def copyPhoneNumbers_fields)
next
  case Unmount
  assume "lastUpdatedRef (step e s) \<noteq> lastUpdatedRef s"
  then show ?thesis using Unmount by (simp add: step_def run_cleanup_fields)
qed

lemma step_lastUpdatedRef_nonempty:
  assumes "one_timer s" "lastUpdatedRef s \<noteq> []"
  shows "lastUpdatedRef (step e s) \<noteq> []"
proof (cases "lastUpdatedRef (step e s) = lastUpdatedRef s")
  case True
  then show ?thesis using assms(2) by simp
next
  case False
  from step_lastUpdatedRef [OF False] obtain i where
    i: "i < length (inFlight s)" "lastUpdatedRef (step e s) = formattedPhoneNumbers (inFlight s ! i)"
    by blast
  then show ?thesis using assms(1) by (simp add: one_timer_def list_all_length)
qed

lemma run_lastUpdatedRef_nonempty:
  "one_timer s \<Longrightarrow> lastUpdatedRef s \<noteq> [] \<Longrightarrow> lastUpdatedRef (run es s) \<noteq> []"
  by (induction es arbitrary: s) (simp_all add: one_timer_step step_lastUpdatedRef_nonempty)
lemma effect_body_unsupported:
  "\<not> isSupported (clipboard r) \<Longrightarrow> effect_body r s = s\<lparr>effectCleanup := False\<rparr>"
  by (simp add: effect_body_def)

lemma copyPhoneNumbers_writes:
  "clipboardWrites (snd (copyPhoneNumbers r out s)) =
     (if selectedMusicians r \<noteq> [] \<and> formattedPhoneNumbers r \<noteq> []
      then clipboardWrites s @ [(Manual, formattedPhoneNumbers r)] else clipboardWrites s)"
  by (auto simp: copyPhoneNumbers_def copy_try_def showToast_def Let_def
      split: write_outcome.splits option.splits ClipboardErrorType.splits thrown.splits)

lemma step_unsupported:
  assumes "timers s = []" "unsupported e"
  shows "timers (step e s) = [] \<and> auto_writes (step e s) = auto_writes s"
proof (cases e)
  case (Render r)
  then show ?thesis using assms run_cleanup_fields(8) [of s]
    by (simp add: step_def useEffect_run_def effect_body_unsupported unsupported_def
        auto_writes_def run_cleanup_fields)
next
  case (Elapse d)
  then show ?thesis using assms by (simp add: step_def elapse_no_timer auto_writes_def)
next
  case (AutoWriteSettled i out)
  then show ?thesis using assms by (simp add: step_def auto_settled_fields auto_writes_def)
next
  case (CopyPhoneNumbers r out)
  then show ?thesis using assms
    by (simp add: step_def copyPhoneNumbers_fields copyPhoneNumbers_writes auto_writes_def)
next
  case Unmount
  then show ?thesis using assms run_cleanup_fields(8) [of s]
    by (simp add: step_def auto_writes_def run_cleanup_fields)
qed

lemma run_unsupported:
  "timers s = [] \<Longrightarrow> list_all unsupported es \<Longrightarrow>
   timers (run es s) = [] \<and> auto_writes (run es s) = auto_writes s"
  by (induction es arbitrary: s) (simp_all add: step_unsupported)

subsection \<open>The sample inputs evaluated\<close>

lemma example_selected:
  "selectedMusicians (example_render {} b e) = []"
  "selectedMusicians (example_render {''a''} b e) = [\<lparr>musician_id = ''a'', phone = Some ''555-0100''\<rparr>]"
  "selectedMusicians (example_render {''a'', ''b''} b e) =
     [\<lparr>musician_id = ''a'', phone = Some ''555-0100''\<rparr>, \<lparr>musician_id = ''b'', phone = Some ''555-0101''\<rparr>]"
  by (simp_all add: selectedMusicians_def example_render_def roster_def)

lemma example_formatted:
  "formattedPhoneNumbers (example_render {} b e) = []"
  "formattedPhoneNumbers (example_render {''a''} b e) = ''555-0100''"
  "formattedPhoneNumbers (example_render {''a'', ''b''} b e) = ''555-0100,555-0101''"
  by (simp_all add: formattedPhoneNumbers_def example_selected) (simp_all add: example_render_def)

lemma example_valid:
  "validPhones (example_render {''a''} b e) = 1"
  "validPhones (example_render {''a'', ''b''} b e) = 2"
  by (simp_all add: validPhones_def example_selected) (simp_all add: example_render_def count_valid_def)

lemma example_options:
  "opt_autoUpdateClipboard (example_render ids b e)"
  "opt_autoUpdateMinSelection (example_render ids b e) = 1"
  "opt_autoUpdateDebounce (example_render ids b e) = 300"
  "isSupported (clipboard (example_render ids b e)) = b"
  "detailedError (clipboard (example_render ids b e)) = e"
  "opt_successMessage (example_render ids b e) = default_successMessage"
  by (simp_all add: opt_autoUpdateClipboard_def opt_autoUpdateMinSelection_def
      opt_autoUpdateDebounce_def opt_successMessage_def example_render_def)

lemma long_formatted: "formattedPhoneNumbers long_render = replicate 150 (CHR ''5'')"
  by (simp add: formattedPhoneNumbers_def long_render_def)

lemma example_arms:
  "arms (example_render {''a''} True e) mount_state"
  "arms (example_render {''a'', ''b''} True e) mount_state"
  by (simp_all add: arms_def example_options example_selected example_formatted example_valid
      mount_state_def)

lemma mount_fields:
  "mounted mount_state" "lastUpdatedRef mount_state = []" "clipboardWrites mount_state = []"
  "toasts mount_state = []" "timers mount_state = []" "nextHandle mount_state = 1"
  "inFlight mount_state = []" "clock mount_state = 0"
  by (simp_all add: mount_state_def)
lemma example_synced:
  "lastUpdatedRef (run [Render (example_render {''a''} True None), Elapse 300] mount_state) = []"
  "inFlight (run [Render (example_render {''a''} True None), Elapse 300] mount_state)
     = [example_render {''a''} True None]"
  "lastUpdatedRef (run [Render (example_render {''a''} True None), Elapse 300,
      AutoWriteSettled 0 (Resolved True)] mount_state) = ''555-0100''"
  "timers (run [Render (example_render {''a''} True None), Elapse 300,
      AutoWriteSettled 0 (Resolved True)] mount_state) = []"
  "clipboardWrites (run [Render (example_render {''a''} True None), Elapse 300,
      AutoWriteSettled 0 (Resolved True)] mount_state) = [(Auto, ''555-0100'')]"
  "mounted (run [Render (example_render {''a''} True None), Elapse 300,
      AutoWriteSettled 0 (Resolved True)] mount_state)"
  by (simp_all add: step_def useEffect_run_arms one_timer_mount example_arms
      mount_fields run_cleanup_fields elapse_single example_options drop_nth_def
      auto_settled_def showToast_def example_formatted)

section \<open>Claims\<close>

text \<open>
  C1. An automatic write that completes with failure should surface a notification exactly
  when the classified error is a permission denial or a missing capability, however the
  writer reports the failure. The callback does so only in its \<^verbatim>\<open>catch\<close>: when the
  write resolves to \<^verbatim>\<open>false\<close> it does nothing at all. Evaluated on the sample
  selection with a permission denial as the clipboard's detailed error: the write is made,
  it settles with the failure status and no notification is emitted, whereas the same write
  throwing emits the permission notification.
\<close>

theorem auto_failure_status_is_silent:
  "clipboardWrites (step (Elapse 300)
      (step (Render (example_render {''a''} True (Some permission_denied))) mount_state))
     = [(Auto, ''555-0100'')]
   \<and> toasts (step (AutoWriteSettled 0 (Resolved False)) (step (Elapse 300)
      (step (Render (example_render {''a''} True (Some permission_denied))) mount_state))) = []
   \<and> toasts (step (AutoWriteSettled 0 (Threw OtherValue)) (step (Elapse 300)
      (step (Render (example_render {''a''} True (Some permission_denied))) mount_state)))
     = [ShowPermissionDenied]"
  by (simp add: step_def useEffect_run_arms one_timer_mount example_arms
      mount_fields run_cleanup_fields elapse_single example_options drop_nth_def
      auto_settled_def showToast_def example_formatted permission_denied_def)

text \<open>
  What the callback does emit, for every render, outcome and state.
\<close>

lemma auto_settled_toasts:
  "toasts (auto_settled r outcome s) =
     toasts s @
       (case outcome of
          Resolved ok \<Rightarrow>
            if ok then [ShowToast_copySuccess (validPhones r) (formattedPhoneNumbers r) 2000 ''fade'']
            else []
        | Threw e \<Rightarrow>
            (case detailedError (clipboard r) of
               None \<Rightarrow> []
             | Some ce \<Rightarrow>
                 if errorType ce = PERMISSION_DENIED then [ShowPermissionDenied]
                 else if errorType ce = NOT_SUPPORTED then [ShowNotSupported] else []))"
  by (simp add: auto_settled_def showToast_def Let_def split: write_outcome.splits option.splits)

text \<open>
  C2. Debounce coalescing. From a state of a mounted hook that satisfies the timer
  invariant (every state reached from the mount does), let a render arm a write for
  \<open>formattedPhoneNumbers r1\<close>, let less than its debounce delay pass, and let a second
  render arm a write for \<open>formattedPhoneNumbers r2\<close>. Once the second delay has passed,
  exactly one write has been made, and it carries the second payload. Along every run of
  events at most one timer is pending.
\<close>

theorem debounce_coalescing:
  assumes "one_timer s" and "mounted s"
    and "arms r1 s" and "d < opt_autoUpdateDebounce r1"
    and "arms r2 s" and "opt_autoUpdateDebounce r2 \<le> d2"
  shows "clipboardWrites (run [Render r1, Elapse d, Render r2, Elapse d2] s)
           = clipboardWrites s @ [(Auto, formattedPhoneNumbers r2)]
         \<and> length (timers (run es s)) \<le> 1"
proof
  let ?s1 = "step (Render r1) s"
  let ?s2 = "step (Elapse d) ?s1"
  let ?s3 = "step (Render r2) ?s2"
  have s1: "?s1 = (run_cleanup s)\<lparr>timers := [\<lparr>handle = nextHandle s, deadline = clock s + opt_autoUpdateDebounce r1, callback = r1\<rparr>],
       nextHandle := Suc (nextHandle s),
       debounceTimeoutRef := Some (nextHandle s), effectCleanup := True\<rparr>"
    using assms(1,2,3) by (simp add: step_def useEffect_run_arms)
  have t1: "timers ?s1 = [\<lparr>handle = nextHandle s, deadline = clock s + opt_autoUpdateDebounce r1, callback = r1\<rparr>]"
    by (simp add: s1)
  have c1: "clock ?s1 = clock s" "clipboardWrites ?s1 = clipboardWrites s"
    "mounted ?s1 = mounted s" "lastUpdatedRef ?s1 = lastUpdatedRef s"
    unfolding s1 by (simp_all add: run_cleanup_fields)
  have s2: "?s2 = ?s1\<lparr>clock := clock ?s1 + d\<rparr>"
    using assms(4) elapse_single [OF t1, of d] by (simp add: step_def [of "Elapse d"] c1)
  have w2: "clipboardWrites ?s2 = clipboardWrites s" "mounted ?s2" "lastUpdatedRef ?s2 = lastUpdatedRef s"
    using assms(2) unfolding s2 by (simp_all add: c1)
  have inv2: "one_timer ?s2" using assms(1) by (simp add: one_timer_step)
  have a2: "arms r2 ?s2" using assms(5) w2 by (simp add: arms_def)
  have s3: "?s3 = (run_cleanup ?s2)\<lparr>timers := [\<lparr>handle = nextHandle ?s2, deadline = clock ?s2 + opt_autoUpdateDebounce r2, callback = r2\<rparr>],
       nextHandle := Suc (nextHandle ?s2),
       debounceTimeoutRef := Some (nextHandle ?s2), effectCleanup := True\<rparr>"
    using w2(2) useEffect_run_arms [OF inv2 a2] by (simp add: step_def [of "Render r2"])
  have t3: "timers ?s3 = [\<lparr>handle = nextHandle ?s2, deadline = clock ?s2 + opt_autoUpdateDebounce r2, callback = r2\<rparr>]"
    unfolding s3 by simp
  have c3: "clipboardWrites ?s3 = clipboardWrites s" "clock ?s3 = clock ?s2"
    unfolding s3 using w2(1) by (simp_all add: run_cleanup_fields)
  have "clipboardWrites (step (Elapse d2) ?s3) = clipboardWrites s @ [(Auto, formattedPhoneNumbers r2)]"
    using assms(6) by (simp add: step_def [of "Elapse d2"] elapse_single [OF t3] c3)
  then show "clipboardWrites (run [Render r1, Elapse d, Render r2, Elapse d2] s)
           = clipboardWrites s @ [(Auto, formattedPhoneNumbers r2)]"
    by simp
next
  show "length (timers (run es s)) \<le> 1"
    using assms(1) by (intro timers_le_one one_timer_run)
qed

theorem debounce_coalescing_witness:
  "clipboardWrites
     (run [Render (example_render {''a''} True None), Elapse 100,
           Render (example_render {''a'', ''b''} True None), Elapse 300] mount_state)
     = [(Auto, ''555-0100,555-0101'')]
   \<and> length (timers (run [Render (example_render {''a''} True None), Elapse 300] mount_state)) \<le> 1"
  using debounce_coalescing [of mount_state "example_render {''a''} True None" 100
      "example_render {''a'', ''b''} True None" 300 "[Render (example_render {''a''} True None), Elapse 300]"]
  by (simp add: one_timer_mount mount_fields example_arms example_options example_formatted
      del: run.simps)

text \<open>
  C3. \<^verbatim>\<open>lastUpdatedRef\<close> is written only by an automatic write that resolved to
  \<^verbatim>\<open>true\<close>: if one event changes it, the event is the settlement of a suspended
  debounce callback with \<open>Resolved True\<close>, and the new value is that callback's payload.
  No render, timer, failed or thrown automatic write, manual copy or unmount changes it.
  It is never cleared: once non-empty it stays non-empty along every run.
\<close>

theorem lastUpdatedRef_only_auto_success:
  "(lastUpdatedRef (step e s) \<noteq> lastUpdatedRef s \<longrightarrow>
      (\<exists>i. e = AutoWriteSettled i (Resolved True) \<and> i < length (inFlight s)
          \<and> lastUpdatedRef (step e s) = formattedPhoneNumbers (inFlight s ! i)))
   \<and> (one_timer s \<and> lastUpdatedRef s \<noteq> [] \<longrightarrow> lastUpdatedRef (run es s) \<noteq> [])"
  using step_lastUpdatedRef [of e s] run_lastUpdatedRef_nonempty [of s es] by blast

theorem lastUpdatedRef_only_auto_success_witness:
  "lastUpdatedRef (step (AutoWriteSettled 0 (Resolved True))
       (run [Render (example_render {''a''} True None), Elapse 300] mount_state))
     \<noteq> lastUpdatedRef (run [Render (example_render {''a''} True None), Elapse 300] mount_state)
   \<and> (\<exists>i. AutoWriteSettled 0 (Resolved True) = AutoWriteSettled i (Resolved True)
         \<and> i < length (inFlight (run [Render (example_render {''a''} True None), Elapse 300] mount_state))
         \<and> lastUpdatedRef (step (AutoWriteSettled 0 (Resolved True))
              (run [Render (example_render {''a''} True None), Elapse 300] mount_state))
            = formattedPhoneNumbers
                (inFlight (run [Render (example_render {''a''} True None), Elapse 300] mount_state) ! i))
   \<and> one_timer (run [Render (example_render {''a''} True None), Elapse 300,
         AutoWriteSettled 0 (Resolved True)] mount_state)
   \<and> lastUpdatedRef (run [Render (example_render {''a''} True None), Elapse 300,
         AutoWriteSettled 0 (Resolved True)] mount_state) \<noteq> []
   \<and> lastUpdatedRef
        (run [CopyPhoneNumbers (example_render {''a''} True None) (Resolved False),
              Render (example_render {} True None), Unmount]
           (run [Render (example_render {''a''} True None), Elapse 300,
                 AutoWriteSettled 0 (Resolved True)] mount_state)) \<noteq> []"
proof -
  let ?S = "run [Render (example_render {''a''} True None), Elapse 300] mount_state"
  let ?S' = "run [Render (example_render {''a''} True None), Elapse 300,
               AutoWriteSettled 0 (Resolved True)] mount_state"
  have e: "step (AutoWriteSettled 0 (Resolved True)) ?S = ?S'" by simp
  have c: "lastUpdatedRef (step (AutoWriteSettled 0 (Resolved True)) ?S) \<noteq> lastUpdatedRef ?S"
    unfolding e by (simp only: example_synced) simp
  have i: "one_timer ?S'" by (rule one_timer_run [OF one_timer_mount])
  have n: "lastUpdatedRef ?S' \<noteq> []" by (simp only: example_synced) simp
  show ?thesis
    using c i n
      lastUpdatedRef_only_auto_success [of "AutoWriteSettled 0 (Resolved True)" ?S "[]"]
      lastUpdatedRef_only_auto_success [of Unmount ?S'
        "[CopyPhoneNumbers (example_render {''a''} True None) (Resolved False),
          Render (example_render {} True None), Unmount]"]
    by blast
qed

text \<open>
  C4. Suppression. When the formatted payload equals \<^verbatim>\<open>lastUpdatedRef\<close>, the effect
  run of a render allocates no timer, leaves no timer pending that was not pending before,
  and makes and suspends no write, whatever the selection and the options. From a state of
  a mounted hook with the timer invariant no timer is pending afterwards at all.
\<close>

theorem unchanged_payload_not_rearmed:
  assumes "formattedPhoneNumbers r = lastUpdatedRef s"
  shows "nextHandle (step (Render r) s) = nextHandle s
     \<and> set (timers (step (Render r) s)) \<subseteq> set (timers s)
     \<and> clipboardWrites (step (Render r) s) = clipboardWrites s
     \<and> inFlight (step (Render r) s) = inFlight s
     \<and> (one_timer s \<and> mounted s \<longrightarrow> timers (step (Render r) s) = [])"
proof -
  have "\<not> arms r (run_cleanup s)" using assms by (simp add: arms_def run_cleanup_fields)
  have b: "nextHandle (effect_body r u) = nextHandle u \<and> set (timers (effect_body r u)) \<subseteq> set (timers u)
       \<and> clipboardWrites (effect_body r u) = clipboardWrites u \<and> inFlight (effect_body r u) = inFlight u"
    if "formattedPhoneNumbers r = lastUpdatedRef u" for u
    using that clear_debounce_fields(8) [of u]
    by (simp add: effect_body_def Let_def clear_debounce_fields)
  have c: "formattedPhoneNumbers r = lastUpdatedRef (run_cleanup s)"
    using assms by (simp add: run_cleanup_fields)
  have d: "timers (step (Render r) s) = []" if "one_timer s" "mounted s"
    using that timers_run_cleanup [OF that(1)] \<open>\<not> arms r (run_cleanup s)\<close>
    by (simp add: step_def useEffect_run_def effect_body_skips)
  have e: "set (timers (step (Render r) s)) \<subseteq> set (timers s)"
  proof (cases "mounted s")
    case True
    have "set (timers (effect_body r (run_cleanup s))) \<subseteq> set (timers (run_cleanup s))"
      using b [OF c] by simp
    also have "\<dots> \<subseteq> set (timers s)" by (rule run_cleanup_fields(8))
    finally show ?thesis using True by (simp add: step_def useEffect_run_def)
  next
    case False
    then show ?thesis by (simp add: step_def)
  qed
  show ?thesis
    using b [OF c] d e by (simp add: step_def useEffect_run_def run_cleanup_fields)
qed

theorem unchanged_payload_not_rearmed_witness:
  "formattedPhoneNumbers (example_render {''a''} True None)
     = lastUpdatedRef (run [Render (example_render {''a''} True None), Elapse 300,
         AutoWriteSettled 0 (Resolved True)] mount_state)
   \<and> nextHandle (step (Render (example_render {''a''} True None))
        (run [Render (example_render {''a''} True None), Elapse 300,
              AutoWriteSettled 0 (Resolved True)] mount_state))
     = nextHandle (run [Render (example_render {''a''} True None), Elapse 300,
         AutoWriteSettled 0 (Resolved True)] mount_state)
   \<and> timers (step (Render (example_render {''a''} True None))
        (run [Render (example_render {''a''} True None), Elapse 300,
              AutoWriteSettled 0 (Resolved True)] mount_state)) = []
   \<and> clipboardWrites (step (Render (example_render {''a''} True None))
        (run [Render (example_render {''a''} True None), Elapse 300,
              AutoWriteSettled 0 (Resolved True)] mount_state)) = [(Auto, ''555-0100'')]"
proof -
  let ?r = "example_render {''a''} True None"
  let ?S' = "run [Render ?r, Elapse 300, AutoWriteSettled 0 (Resolved True)] mount_state"
  have p: "formattedPhoneNumbers ?r = lastUpdatedRef ?S'"
    by (simp only: example_synced example_formatted)
  have i: "one_timer ?S'" by (rule one_timer_run [OF one_timer_mount])
  have m: "mounted ?S'" by (rule example_synced)
  have w: "clipboardWrites ?S' = [(Auto, ''555-0100'')]" by (rule example_synced)
  show ?thesis
    using p i m w unchanged_payload_not_rearmed [OF p] by simp
qed

text \<open>
  C5. With nothing selected, \<^verbatim>\<open>copyPhoneNumbers\<close> resolves to
  \<^verbatim>\<open>{success: false, message: 'No musicians selected', phoneCount: 0}\<close> (the spec's
  \<open>No <entities> selected\<close> with the hook's entities, and its \<open>itemCount\<close>), emits the one
  notification for the empty selection and does not call the clipboard writer: of the
  state only the notifications change.
\<close>

theorem copyPhoneNumbers_empty_selection:
  "selectedMusicians r = [] \<Longrightarrow>
   copyPhoneNumbers r outcome s =
     (Inr \<lparr>success = False, message = ''No musicians selected'', phoneCount = 0\<rparr>,
      s\<lparr>toasts := toasts s @ [ShowCopyError ''No musicians selected'' ''Please select some musicians first'']\<rparr>)
   \<and> clipboardWrites (snd (copyPhoneNumbers r outcome s)) = clipboardWrites s"
  by (simp add: copyPhoneNumbers_def showToast_def)

theorem copyPhoneNumbers_empty_selection_witness:
  "selectedMusicians (example_render {} True None) = []
   \<and> fst (copyPhoneNumbers (example_render {} True None) (Resolved True) mount_state)
       = Inr \<lparr>success = False, message = ''No musicians selected'', phoneCount = 0\<rparr>
   \<and> toasts (snd (copyPhoneNumbers (example_render {} True None) (Resolved True) mount_state))
       = [ShowCopyError ''No musicians selected'' ''Please select some musicians first'']
   \<and> clipboardWrites (snd (copyPhoneNumbers (example_render {} True None) (Resolved True) mount_state))
       = []"
  using copyPhoneNumbers_empty_selection
      [of "example_render {} True None" "Resolved True" mount_state]
  by (simp add: example_selected mount_fields)

text \<open>
  C6. When the write called by \<^verbatim>\<open>copyPhoneNumbers\<close> throws, the promise still
  resolves (\<open>Inr\<close>): the result is a failure with the message of the caught
  \<^verbatim>\<open>Error\<close>, or \<open>Unknown error occurred\<close> for any other thrown value, and a phone count
  of zero; after the loading notification exactly one error notification is emitted.
\<close>

theorem copyPhoneNumbers_write_throws:
  "selectedMusicians r \<noteq> [] \<Longrightarrow> formattedPhoneNumbers r \<noteq> [] \<Longrightarrow>
   copyPhoneNumbers r (Threw e) s =
     (Inr \<lparr>success = False,
           message = (case e of ErrorObject m \<Rightarrow> m | OtherValue \<Rightarrow> ''Unknown error occurred''),
           phoneCount = 0\<rparr>,
      s\<lparr>toasts := toasts s @
           [ShowCopyLoading,
            ShowCopyError (case e of ErrorObject m \<Rightarrow> m | OtherValue \<Rightarrow> ''Unknown error occurred'')
              ''Please try again or copy manually''],
        clipboardWrites := clipboardWrites s @ [(Manual, formattedPhoneNumbers r)]\<rparr>)"
  by (simp add: copyPhoneNumbers_def copy_try_def showToast_def Let_def)

theorem copyPhoneNumbers_write_throws_witness:
  "selectedMusicians (example_render {''a''} True None) \<noteq> []
   \<and> formattedPhoneNumbers (example_render {''a''} True None) \<noteq> []
   \<and> fst (copyPhoneNumbers (example_render {''a''} True None) (Threw (ErrorObject ''boom'')) mount_state)
       = Inr \<lparr>success = False, message = ''boom'', phoneCount = 0\<rparr>
   \<and> toasts (snd (copyPhoneNumbers (example_render {''a''} True None)
        (Threw (ErrorObject ''boom'')) mount_state))
       = [ShowCopyLoading, ShowCopyError ''boom'' ''Please try again or copy manually'']
   \<and> fst (copyPhoneNumbers (example_render {''a''} True None) (Threw OtherValue) mount_state)
       = Inr \<lparr>success = False, message = ''Unknown error occurred'', phoneCount = 0\<rparr>"
  using copyPhoneNumbers_write_throws
      [of "example_render {''a''} True None" "ErrorObject ''boom''" mount_state]
    copyPhoneNumbers_write_throws
      [of "example_render {''a''} True None" OtherValue mount_state]
  by (simp add: example_selected example_formatted mount_fields)

text \<open>
  C7. The preview of a payload of 150 characters at \<open>maxLength = 100\<close> has 100 characters,
  its first 97 are the payload's first 97 and its last three are the ellipsis marker. In
  general a non-empty payload longer than \<open>maxLength\<close> is cut to \<open>maxLength - 3\<close>
  characters (to none when that is negative) and the marker is appended.
\<close>

theorem getPreview_truncates:
  "(length (formattedPhoneNumbers r) = 150 \<longrightarrow>
      length (getPreview r 100) = 100
      \<and> take 97 (getPreview r 100) = take 97 (formattedPhoneNumbers r)
      \<and> drop 97 (getPreview r 100) = ''...'')
   \<and> (formattedPhoneNumbers r \<noteq> [] \<and> maxLength < int (length (formattedPhoneNumbers r)) \<longrightarrow>
      getPreview r maxLength = take (nat (maxLength - 3)) (formattedPhoneNumbers r) @ ''...'')"
  by (auto simp: getPreview_def)

theorem getPreview_truncates_witness:
  "length (formattedPhoneNumbers long_render) = 150
   \<and> length (getPreview long_render 100) = 100
   \<and> take 97 (getPreview long_render 100) = replicate 97 (CHR ''5'')
   \<and> drop 97 (getPreview long_render 100) = ''...''
   \<and> getPreview long_render 100 = replicate 97 (CHR ''5'') @ ''...''"
  using getPreview_truncates [of long_render 100]
  by (simp add: long_formatted)

text \<open>
  C8. Manual copy is idempotent in its result: with a non-empty selection, a non-empty
  payload and a write that resolves to \<^verbatim>\<open>true\<close> both times, two calls in succession
  from the same render both resolve to a success whose phone count is the render's
  \<open>validPhones\<close>.
\<close>

theorem copyPhoneNumbers_twice:
  "selectedMusicians r \<noteq> [] \<Longrightarrow> formattedPhoneNumbers r \<noteq> [] \<Longrightarrow>
   copyPhoneNumbers r (Resolved True) s = (res1, s1) \<Longrightarrow>
   copyPhoneNumbers r (Resolved True) s1 = (res2, s2) \<Longrightarrow>
   res1 = Inr \<lparr>success = True, message = opt_successMessage r (validPhones r), phoneCount = validPhones r\<rparr>
   \<and> res2 = Inr \<lparr>success = True, message = opt_successMessage r (validPhones r), phoneCount = validPhones r\<rparr>"
  by (auto simp: copyPhoneNumbers_def copy_try_def showToast_def Let_def)

theorem copyPhoneNumbers_twice_witness:
  "fst (copyPhoneNumbers (example_render {''a'', ''b''} True None) (Resolved True) mount_state)
     = Inr \<lparr>success = True, message = ''Copied 2 phone numbers to clipboard'', phoneCount = 2\<rparr>
   \<and> fst (copyPhoneNumbers (example_render {''a'', ''b''} True None) (Resolved True)
        (snd (copyPhoneNumbers (example_render {''a'', ''b''} True None) (Resolved True) mount_state)))
     = Inr \<lparr>success = True, message = ''Copied 2 phone numbers to clipboard'', phoneCount = 2\<rparr>"
proof -
  let ?r = "example_render {''a'', ''b''} True None"
  let ?x = "copyPhoneNumbers ?r (Resolved True) mount_state"
  let ?y = "copyPhoneNumbers ?r (Resolved True) (snd ?x)"
  have s: "selectedMusicians ?r \<noteq> []" and f: "formattedPhoneNumbers ?r \<noteq> []"
    by (simp_all add: example_selected example_formatted)
  have m: "default_successMessage 2 = ''Copied 2 phone numbers to clipboard''"
    by (simp add: default_successMessage_def show_nat.simps [of 2])
  show ?thesis
    using copyPhoneNumbers_twice [OF s f, of mount_state "fst ?x" "snd ?x" "fst ?y" "snd ?y"] m
    by (simp add: example_valid example_options)
qed

text \<open>
  C9. Preview at its edges, for every integer \<open>maxLength\<close>: an empty payload gives the
  empty string; a payload no longer than \<open>maxLength\<close> is returned unchanged; a non-empty
  payload longer than \<open>maxLength\<close> gives a result of length \<open>max maxLength 3\<close>, which for
  \<open>maxLength < 3\<close> is the bare three-character marker and is longer than \<open>maxLength\<close>.
  The empty payload is settled by the first clause for every \<open>maxLength\<close>, negative ones
  included, so the third clause speaks of the non-empty ones.
\<close>

theorem getPreview_edges:
  "(formattedPhoneNumbers r = [] \<longrightarrow> getPreview r maxLength = [])
   \<and> (int (length (formattedPhoneNumbers r)) \<le> maxLength \<longrightarrow>
        getPreview r maxLength = formattedPhoneNumbers r)
   \<and> (formattedPhoneNumbers r \<noteq> [] \<and> maxLength < int (length (formattedPhoneNumbers r)) \<longrightarrow>
        int (length (getPreview r maxLength)) = max maxLength 3)
   \<and> (formattedPhoneNumbers r \<noteq> [] \<and> maxLength < int (length (formattedPhoneNumbers r)) \<and> maxLength < 3 \<longrightarrow>
        getPreview r maxLength = ''...'' \<and> maxLength < int (length (getPreview r maxLength)))"
  by (auto simp: getPreview_def)

theorem getPreview_edges_witness:
  "getPreview (example_render {} True None) 5 = []
   \<and> getPreview (example_render {''a''} True None) 8 = ''555-0100''
   \<and> getPreview (example_render {''a''} True None) 5 = ''55...''
   \<and> getPreview (example_render {''a''} True None) 2 = ''...''
   \<and> getPreview (example_render {''a''} True None) (- 1) = ''...''"
proof -
  let ?r = "example_render {''a''} True None"
  have "getPreview ?r 5 = ''55...''" by (simp add: getPreview_def example_formatted)
  then show ?thesis
    using getPreview_edges [of "example_render {} True None" 5]
      getPreview_edges [of ?r 8] getPreview_edges [of ?r 2] getPreview_edges [of ?r "- 1"]
    by (simp add: example_formatted)
qed

text \<open>
  C10. Support gating by origin. With \<^verbatim>\<open>isSupported\<close> false the effect run of a
  render allocates no timer, leaves none pending that was not, and writes nothing; a hook
  whose every render sees an unsupported clipboard never makes an automatic write. The
  manual copy does not read \<^verbatim>\<open>isSupported\<close>: whenever the selection and the
  payload are non-empty it calls the writer with the payload.
\<close>

theorem support_gates_auto_not_manual:
  "(\<not> isSupported (clipboard r) \<longrightarrow>
      nextHandle (step (Render r) s) = nextHandle s
      \<and> set (timers (step (Render r) s)) \<subseteq> set (timers s)
      \<and> clipboardWrites (step (Render r) s) = clipboardWrites s)
   \<and> (list_all unsupported es \<longrightarrow> auto_writes (run es mount_state) = [])
   \<and> (selectedMusicians r \<noteq> [] \<and> formattedPhoneNumbers r \<noteq> [] \<longrightarrow>
        clipboardWrites (snd (copyPhoneNumbers r out s))
          = clipboardWrites s @ [(Manual, formattedPhoneNumbers r)])"
proof (intro conjI impI)
  assume u: "\<not> isSupported (clipboard r)"
  show "nextHandle (step (Render r) s) = nextHandle s"
    using u by (simp add: step_def useEffect_run_def effect_body_unsupported run_cleanup_fields)
  show "set (timers (step (Render r) s)) \<subseteq> set (timers s)"
    using u run_cleanup_fields(8) [of s]
    by (simp add: step_def useEffect_run_def effect_body_unsupported)
  show "clipboardWrites (step (Render r) s) = clipboardWrites s"
    using u by (simp add: step_def useEffect_run_def effect_body_unsupported run_cleanup_fields)
next
  assume "list_all unsupported es"
  then show "auto_writes (run es mount_state) = []"
    using run_unsupported [of mount_state es] by (simp add: mount_state_def auto_writes_def)
next
  assume "selectedMusicians r \<noteq> [] \<and> formattedPhoneNumbers r \<noteq> []"
  then show "clipboardWrites (snd (copyPhoneNumbers r out s))
          = clipboardWrites s @ [(Manual, formattedPhoneNumbers r)]"
    by (simp add: copyPhoneNumbers_writes)
qed

theorem support_gates_auto_not_manual_witness:
  "\<not> isSupported (clipboard (example_render {''a''} False None))
   \<and> nextHandle (step (Render (example_render {''a''} False None)) mount_state) = 1
   \<and> timers (step (Render (example_render {''a''} False None)) mount_state) = []
   \<and> clipboardWrites (step (Render (example_render {''a''} False None)) mount_state) = []
   \<and> auto_writes (run [Render (example_render {''a''} False None), Elapse 300, Unmount] mount_state) = []
   \<and> clipboardWrites (snd (copyPhoneNumbers (example_render {''a''} False None) (Resolved True) mount_state))
       = [(Manual, ''555-0100'')]"
  using support_gates_auto_not_manual [of "example_render {''a''} False None" mount_state
      "[Render (example_render {''a''} False None), Elapse 300, Unmount]" "Resolved True"]
  by (simp add: example_options example_selected example_formatted mount_fields unsupported_def
      del: run.simps)

end
